theory Spec2Isabelle
  imports Complex_Main "HOL-Library.AList" "HOL-Library.List_Lexorder" "HOL-Library.Char_ord" "HOL-Library.Sublist"
begin

section \<open>JavaScript values as the server reads them\<close>

text \<open>
  \<^verbatim>\<open>server/index.js\<close> decides most of its behaviour with the operators \<^verbatim>\<open>||\<close>, \<^verbatim>\<open>&&\<close>,
  \<^verbatim>\<open>!\<close>, \<^verbatim>\<open>===\<close> and \<^verbatim>\<open>typeof\<close>, so the model carries a datatype of JavaScript values with
  their truthiness. A number is a rational (the finite numbers), \<^verbatim>\<open>NaN\<close> or an infinity
  with its sign. An object is the list of its properties in insertion order; a function
  is an object that \<^verbatim>\<open>typeof\<close> calls \<^verbatim>\<open>'function'\<close>.
\<close>

datatype jsval =
    JUndefined
  | JNull
  | JBool bool
  | JNum rat
  | JNaN
  | JInfinity bool
  | JStr string
  | JArr "jsval list"
  | JObj "(string \<times> jsval) list"
  | JFun "(string \<times> jsval) list"

fun truthy :: "jsval \<Rightarrow> bool" where
  "truthy JUndefined = False"
| "truthy JNull = False"
| "truthy (JBool b) = b"
| "truthy (JNum n) = (n \<noteq> 0)"
| "truthy JNaN = False"
| "truthy (JInfinity s) = True"
| "truthy (JStr s) = (s \<noteq> [])"
| "truthy (JArr xs) = True"
| "truthy (JObj ps) = True"
| "truthy (JFun ps) = True"

text \<open>\<^verbatim>\<open>a || b\<close>: the left operand when it is truthy, the right one otherwise.\<close>

definition js_or :: "jsval \<Rightarrow> jsval \<Rightarrow> jsval" where
  "js_or a b = (if truthy a then a else b)"

fun typeof :: "jsval \<Rightarrow> string" where
  "typeof JUndefined = ''undefined''"
| "typeof JNull = ''object''"
| "typeof (JBool b) = ''boolean''"
| "typeof (JNum n) = ''number''"
| "typeof JNaN = ''number''"
| "typeof (JInfinity s) = ''number''"
| "typeof (JStr s) = ''string''"
| "typeof (JArr xs) = ''object''"
| "typeof (JObj ps) = ''object''"
| "typeof (JFun ps) = ''function''"

text \<open>
  \<^verbatim>\<open>v.name\<close> for a property name that no primitive, string or array carries of its own
  (\<^verbatim>\<open>queryDocuments\<close> is the only one read this way). Reading a property of
  \<^verbatim>\<open>undefined\<close> or \<^verbatim>\<open>null\<close> throws a TypeError: \<open>None\<close>.
\<close>

fun get_prop :: "jsval \<Rightarrow> string \<Rightarrow> jsval option" where
  "get_prop JUndefined k = None"
| "get_prop JNull k = None"
| "get_prop (JObj ps) k = Some (case map_of ps k of Some v \<Rightarrow> v | None \<Rightarrow> JUndefined)"
| "get_prop (JFun ps) k = Some (case map_of ps k of Some v \<Rightarrow> v | None \<Rightarrow> JUndefined)"
| "get_prop v k = Some JUndefined"

text \<open>
  \<^verbatim>\<open>JSON.stringify\<close>, as the value that the text it writes denotes. A property whose
  value is \<^verbatim>\<open>undefined\<close> or a function is left out of an object; in an array such an
  element is written \<^verbatim>\<open>null\<close>, and so is a number that is not finite. An object has each
  property name once.
\<close>

primrec wire :: "jsval \<Rightarrow> jsval" where
  "wire JUndefined = JUndefined"
| "wire JNull = JNull"
| "wire (JBool b) = JBool b"
| "wire (JNum q) = JNum q"
| "wire JNaN = JNull"
| "wire (JInfinity s) = JNull"
| "wire (JStr s) = JStr s"
| "wire (JArr xs) = JArr (map (\<lambda>w. if w = JUndefined then JNull else w) (map wire xs))"
| "wire (JObj ps) = JObj (filter (\<lambda>(k, w). w \<noteq> JUndefined) (map (map_prod id wire) ps))"
| "wire (JFun ps) = JUndefined"

text \<open>What becomes of one property of an object: \<open>None\<close> when it is left out.\<close>

definition json_property :: "jsval \<Rightarrow> jsval option" where
  "json_property v = (if wire v = JUndefined then None else Some (wire v))"

text \<open>
  \<^verbatim>\<open>process.env\<close> and \<^verbatim>\<open>req.headers\<close> map names to strings; a missing name reads as
  \<^verbatim>\<open>undefined\<close> (\<open>None\<close>). A string is truthy when it is not empty.
\<close>

type_synonym env = "(string \<times> string) list"

definition getenv :: "env \<Rightarrow> string \<Rightarrow> string option" where
  "getenv e k = map_of e k"

definition str_truthy :: "string option \<Rightarrow> bool" where
  "str_truthy v = (case v of None \<Rightarrow> False | Some s \<Rightarrow> s \<noteq> [])"

text \<open>\<^verbatim>\<open>v || 'default'\<close> for a \<^verbatim>\<open>v\<close> that is a string or \<^verbatim>\<open>undefined\<close>.\<close>

definition or_default :: "string option \<Rightarrow> string \<Rightarrow> string" where
  "or_default v d = (case v of None \<Rightarrow> d | Some s \<Rightarrow> if s = [] then d else s)"

section \<open>Startup: \<^verbatim>\<open>initializeFirebaseAdmin\<close> and \<^verbatim>\<open>startServer\<close>\<close>

text \<open>
  What the process does at startup is a list of events in the order the statements run.
  \<^verbatim>\<open>process.exit\<close> ends the process at once, so nothing follows a \<open>Process_exit\<close>.
  The metadata objects and error values handed to the logger as a second argument are not
  part of an event: an entry is its level and its message.
\<close>

datatype level = Info_level | Error_level

datatype event =
    Logged level string
  | Process_exit nat
  | Initialize_app jsval
  | Use_middleware string
  | Get_route string
  | Mount string
  | Use_error_handler
  | Listen jsval

text \<open>
  The calls into libraries and into modules outside this file, by their outcome. A
  call that throws is \<open>None\<close> (or \<open>False\<close> for a call whose value is not used).
\<close>

record world =
  process_env :: env
    \<comment> \<open>\<^verbatim>\<open>process.env\<close> once \<^verbatim>\<open>dotenv.config()\<close> has run\<close>
  json_parse :: "string \<Rightarrow> jsval option"
    \<comment> \<open>\<^verbatim>\<open>JSON.parse\<close>\<close>
  require_json :: "string \<Rightarrow> jsval option"
    \<comment> \<open>\<^verbatim>\<open>require\<close> of a JSON file by its relative path\<close>
  initialize_app :: "jsval \<Rightarrow> bool"
    \<comment> \<open>\<^verbatim>\<open>admin.initializeApp({ credential: admin.credential.cert(serviceAccount) })\<close>\<close>
  firestore_handle :: "jsval option"
    \<comment> \<open>\<^verbatim>\<open>admin.firestore()\<close>\<close>
  firestore_utils :: "jsval \<Rightarrow> jsval option"
    \<comment> \<open>\<^verbatim>\<open>require('./utils/firestoreUtils')(firestore)\<close>\<close>

datatype cred_source = Env_blob string | Local_file string

text \<open>Lines 23 to 29: which source the credential comes from.\<close>

definition credential_source :: "env \<Rightarrow> cred_source" where
  "credential_source e =
     (case getenv e ''FIREBASE_SERVICE_ACCOUNT'' of
        Some blob \<Rightarrow>
          (if getenv e ''NODE_ENV'' = Some ''production'' \<and> blob \<noteq> []
           then Env_blob blob
           else Local_file ''./serviceAccountKey.json'')
      | None \<Rightarrow> Local_file ''./serviceAccountKey.json'')"

definition load_credential :: "world \<Rightarrow> jsval option" where
  "load_credential w =
     (case credential_source (process_env w) of
        Env_blob blob \<Rightarrow> json_parse w blob
      | Local_file p \<Rightarrow> require_json w p)"

text \<open>
  \<^verbatim>\<open>initializeFirebaseAdmin\<close>: the events it adds and the store handle, \<open>None\<close> when the
  \<^verbatim>\<open>catch\<close> block has ended the process. \<open>Initialize_app v\<close> records the call of
  \<^verbatim>\<open>admin.initializeApp\<close> with the credential made from \<open>v\<close>.
\<close>

definition init_failed :: "event list \<Rightarrow> event list \<times> jsval option" where
  "init_failed evs =
     (evs @ [Logged Error_level ''Error initializing Firebase Admin:'', Process_exit 1], None)"

definition initializeFirebaseAdmin :: "world \<Rightarrow> event list \<times> jsval option" where
  "initializeFirebaseAdmin w =
     (case load_credential w of
        None \<Rightarrow> init_failed []
      | Some serviceAccount \<Rightarrow>
          (if \<not> initialize_app w serviceAccount
           then init_failed [Initialize_app serviceAccount]
           else (case firestore_handle w of
                   None \<Rightarrow> init_failed [Initialize_app serviceAccount]
                 | Some firestore \<Rightarrow>
                     ([Initialize_app serviceAccount,
                       Logged Info_level ''Firebase Admin initialized successfully''],
                      Some firestore))))"

text \<open>
  Line 71: the condition of the \<^verbatim>\<open>if\<close>, true when the check fails. \<^verbatim>\<open>||\<close> does not
  evaluate its right operand for a falsy \<^verbatim>\<open>firestoreUtils\<close>, so the property is only
  read from a truthy value.
\<close>

definition facade_check_fails :: "jsval \<Rightarrow> bool" where
  "facade_check_fails firestoreUtils =
     (if \<not> truthy firestoreUtils then True
      else (case get_prop firestoreUtils ''queryDocuments'' of
              Some q \<Rightarrow> typeof q \<noteq> ''function''
            | None \<Rightarrow> True))"

definition port_of :: "env \<Rightarrow> jsval" where
  "port_of e =
     (case getenv e ''PORT'' of
        None \<Rightarrow> JNum 5000
      | Some p \<Rightarrow> if p = [] then JNum 5000 else JStr p)"

definition running_message :: "env \<Rightarrow> string" where
  "running_message e =
     ''Server running on port '' @ or_default (getenv e ''PORT'') ''5000'' @ '' in '' @
     or_default (getenv e ''NODE_ENV'') ''development'' @ '' mode vibe''"

text \<open>
  Lines 83 to 165, in order: the application is assembled, then \<^verbatim>\<open>app.listen\<close> is called
  (\<open>Listen\<close>). The calls that install the collaborators are taken to return; whether the
  port can be bound is not part of the model.
\<close>

definition assemble_and_listen :: "env \<Rightarrow> event list" where
  "assemble_and_listen e =
     [Use_middleware ''configureSecurityMiddleware'',
      Use_middleware ''configureLogging'',
      Use_middleware ''express.json'',
      Use_middleware ''express.urlencoded'',
      Use_middleware ''cors'',
      Get_route ''/api/cors-test'',
      Mount ''/api/auth'',
      Mount ''/api/users'',
      Mount ''/api/sleep'',
      Mount ''/api/competitions'',
      Mount ''/api/notifications'',
      Mount ''/api/invitations'',
      Get_route ''/api/health'',
      Use_error_handler,
      Listen (port_of e),
      Logged Info_level (running_message e)]"

datatype outcome = Exited nat | Rejected | Listen_called

record startup =
  events :: "event list"
  outcome :: outcome

text \<open>
  \<^verbatim>\<open>startServer\<close>. The outcome is the exit code when \<^verbatim>\<open>process.exit\<close> has run,
  \<open>Listen_called\<close> when the function has run to its end, and \<open>Rejected\<close> when the
  \<^verbatim>\<open>firestoreUtils\<close> factory throws: that call is outside every \<^verbatim>\<open>try\<close>, so the promise
  of \<^verbatim>\<open>startServer\<close> is rejected.
\<close>

definition startServer :: "world \<Rightarrow> startup" where
  "startServer w =
     (let loaded = [Logged Info_level ''Environment variables loaded.''] in
      case initializeFirebaseAdmin w of
        (evs, None) \<Rightarrow> \<lparr>events = loaded @ evs, outcome = Exited 1\<rparr>
      | (evs, Some firestore) \<Rightarrow>
          (case firestore_utils w firestore of
             None \<Rightarrow> \<lparr>events = loaded @ evs, outcome = Rejected\<rparr>
           | Some firestoreUtils \<Rightarrow>
               (if facade_check_fails firestoreUtils
                then \<lparr>events = loaded @ evs @
                        [Logged Error_level ''firestoreUtils was not initialized correctly!'',
                         Process_exit 1],
                      outcome = Exited 1\<rparr>
                else \<lparr>events = loaded @ evs @
                        [Logged Info_level
                           ''firestoreUtils initialized successfully with methods:''] @
                        assemble_and_listen (process_env w),
                      outcome = Listen_called\<rparr>)))"

fun is_mount :: "event \<Rightarrow> bool" where
  "is_mount (Mount p) = True"
| "is_mount e = False"

fun is_listen :: "event \<Rightarrow> bool" where
  "is_listen (Listen p) = True"
| "is_listen e = False"

section \<open>Requests, responses and the handlers of \<^verbatim>\<open>index.js\<close>\<close>

text \<open>
  A request as the handlers read it: \<^verbatim>\<open>req.method\<close>, \<^verbatim>\<open>req.path\<close>, \<^verbatim>\<open>req.headers\<close> (Node
  gives the names in lower case) and \<^verbatim>\<open>req.id\<close>, which is \<^verbatim>\<open>undefined\<close> unless an earlier
  middleware has set it.
\<close>

type_synonym headers = "(string \<times> string) list"

record request =
  req_method :: string
  req_path :: string
  req_headers :: headers
  req_id :: jsval

definition header :: "request \<Rightarrow> string \<Rightarrow> string option" where
  "header req k = map_of (req_headers req) k"

text \<open>
  A response: the status code (200 until one is set), the headers set so far by
  \<^verbatim>\<open>res.header\<close> (the entity headers the framework manages itself when it sends, such as
  \<^verbatim>\<open>Content-Type\<close>, \<^verbatim>\<open>Content-Length\<close> and \<^verbatim>\<open>ETag\<close>, are not listed), and the body.
  \<open>Json v\<close> is a JSON body with the value \<open>v\<close>. \<open>Not_found_page\<close> and \<open>Error_page\<close> are the
  HTML pages the framework sends when no layer answers and when an error is left
  unhandled.
\<close>

datatype body = No_body | Json jsval | Not_found_page | Error_page

record response =
  status :: int
  res_headers :: headers
  body :: body

definition fresh_response :: response where
  "fresh_response = \<lparr>status = 200, res_headers = [], body = No_body\<rparr>"

text \<open>\<^verbatim>\<open>res.header(name, value)\<close>: sets the header, replacing an earlier value.\<close>

definition set_header :: "string \<Rightarrow> string \<Rightarrow> response \<Rightarrow> response" where
  "set_header k v res = res\<lparr>res_headers := AList.update k v (res_headers res)\<rparr>"

definition get_header :: "response \<Rightarrow> string \<Rightarrow> string option" where
  "get_header res k = map_of (res_headers res) k"

text \<open>The properties of a thrown value that the error handler reads.\<close>

record js_error =
  statusCode :: jsval
  message :: jsval
  stack :: jsval

text \<open>
  What one layer of the application does with a request: it calls \<^verbatim>\<open>next()\<close>
  (\<open>Continue\<close>), it ends the response (\<open>Finished\<close>), or it throws or calls
  \<^verbatim>\<open>next(err)\<close> (\<open>Failed\<close>, with the response as the layer leaves it).
\<close>

datatype step = Continue request response | Finished response | Failed js_error response

text \<open>Lines 94 to 106. The second component is what the layer writes to the log.\<close>

definition cors_middleware :: "env \<Rightarrow> request \<Rightarrow> response \<Rightarrow> step \<times> string list" where
  "cors_middleware e req res =
     (let res1 = set_header ''Access-Control-Allow-Origin''
                   (or_default (header req ''origin'') ''*'') res;
          res2 = set_header ''Access-Control-Allow-Methods''
                   ''GET, POST, PUT, DELETE, OPTIONS'' res1;
          res3 = set_header ''Access-Control-Allow-Headers''
                   ''Content-Type, Authorization, DNT, User-Agent, X-Requested-With, If-Modified-Since, Cache-Control, Range''
                   res2;
          res4 = set_header ''Access-Control-Allow-Credentials'' ''true'' res3;
          res5 = set_header ''Access-Control-Expose-Headers''
                   ''Content-Length, Content-Range'' res4
      in if req_method req = ''OPTIONS''
         then (Finished (res5\<lparr>status := 200\<rparr>),
               [''Handling OPTIONS request from '' @
                or_default (header req ''origin'') ''unknown origin''])
         else (Continue req res5, []))"

text \<open>
  Lines 109 to 116, the handler's own calls \<^verbatim>\<open>res.status(200).json(...)\<close>: the status it
  sets and the object it hands to \<^verbatim>\<open>res.json\<close>. \<open>now\<close> is the string that
  \<^verbatim>\<open>new Date().toISOString()\<close> returns when the handler runs: the reading of the system
  clock, in ISO-8601 with milliseconds.
\<close>

definition cors_test_handler :: "env \<Rightarrow> string \<Rightarrow> request \<Rightarrow> response \<Rightarrow> response" where
  "cors_test_handler e now req res =
     res\<lparr>status := 200,
         body := Json (JObj
           [(''status'', JStr ''ok''),
            (''message'', JStr ''CORS is properly configured''),
            (''origin'', JStr (or_default (header req ''origin'') ''No origin header'')),
            (''timestamp'', JStr now)])\<rparr>"

text \<open>\<^verbatim>\<open>s.split(',')\<close>, and \<^verbatim>\<open>a.join(',')\<close> to say what it computes.\<close>

fun split_on :: "char \<Rightarrow> string \<Rightarrow> string list" where
  "split_on c [] = [[]]"
| "split_on c (x # xs) =
     (if x = c then [] # split_on c xs
      else (case split_on c xs of
              [] \<Rightarrow> [[x]]
            | w # ws \<Rightarrow> (x # w) # ws))"

fun join_with :: "char \<Rightarrow> string list \<Rightarrow> string" where
  "join_with c [] = []"
| "join_with c [w] = w"
| "join_with c (w # v # ws) = w @ c # join_with c (v # ws)"

text \<open>Lines 135 to 137.\<close>

definition allowed_origins :: "env \<Rightarrow> string list" where
  "allowed_origins e =
     (if getenv e ''NODE_ENV'' = Some ''production''
      then split_on CHR '','' (or_default (getenv e ''ALLOWED_ORIGINS'')
             ''https://pilves.github.io,https://api.chaidla.ee'')
      else split_on CHR '','' (or_default (getenv e ''DEV_ALLOWED_ORIGINS'')
             ''http://localhost:5173,http://localhost:5000''))"

text \<open>Lines 127 to 139, the handler's own calls: the status and the object.\<close>

definition health_handler :: "env \<Rightarrow> string \<Rightarrow> request \<Rightarrow> response \<Rightarrow> response" where
  "health_handler e now req res =
     res\<lparr>status := 200,
         body := Json (JObj
           [(''status'', JStr ''ok''),
            (''message'', JStr ''Sleep Olympics API is running''),
            (''environment'', JStr (or_default (getenv e ''NODE_ENV'') ''development'')),
            (''version'', JStr (or_default (getenv e ''npm_package_version'') ''1.0.0'')),
            (''timestamp'', JStr now),
            (''corsOrigin'', JStr (or_default (header req ''origin'') ''No origin header'')),
            (''allowedOrigins'', JArr (map JStr (allowed_origins e)))])\<rparr>"

text \<open>Reading a field of a JSON body, and the string in a value.\<close>

fun field :: "string \<Rightarrow> body \<Rightarrow> jsval option" where
  "field k (Json (JObj ps)) = map_of ps k"
| "field k b = None"



section \<open>What the framework does with the handlers' calls\<close>

text \<open>
  \<^verbatim>\<open>package.json\<close> asks for express 5. Its \<^verbatim>\<open>res.status(code)\<close> throws a TypeError when
  the code is not an integer and a RangeError when it is below 100 or above 999;
  otherwise it sets the status.
\<close>

datatype thrown = TypeError | RangeError

definition is_integer :: "rat \<Rightarrow> bool" where
  "is_integer q = (of_int \<lfloor>q\<rfloor> = q)"

definition res_status :: "jsval \<Rightarrow> response \<Rightarrow> thrown + response" where
  "res_status code res =
     (case code of
        JNum q \<Rightarrow>
          (if \<not> is_integer q then Inl TypeError
           else if q < 100 \<or> 999 < q then Inl RangeError
           else Inr (res\<lparr>status := \<lfloor>q\<rfloor>\<rparr>))
      | _ \<Rightarrow> Inl TypeError)"

text \<open>
  \<^verbatim>\<open>res.json\<close> ends in \<^verbatim>\<open>res.send\<close>, which answers a conditional GET or HEAD with 304
  when the request's validators say the client's copy is fresh. A request with neither
  \<^verbatim>\<open>If-None-Match\<close> nor \<^verbatim>\<open>If-Modified-Since\<close> is never fresh; one with
  \<^verbatim>\<open>If-None-Match: *\<close> and nothing else always is. For the other conditional requests
  the framework compares entity tags and dates that it computes from the text it is
  about to send: that comparison is a parameter.
\<close>

record framework =
  validators_match :: "request \<Rightarrow> response \<Rightarrow> bool"

definition conditional :: "request \<Rightarrow> bool" where
  "conditional req =
     (str_truthy (header req ''if-modified-since'') \<or> str_truthy (header req ''if-none-match''))"

definition fresh :: "framework \<Rightarrow> request \<Rightarrow> response \<Rightarrow> bool" where
  "fresh fw req res =
     (if req_method req \<noteq> ''GET'' \<and> req_method req \<noteq> ''HEAD'' then False
      else if \<not> ((200 \<le> status res \<and> status res < 300) \<or> status res = 304) then False
      else if \<not> conditional req then False
      else if header req ''if-none-match'' = Some ''*'' \<and>
              \<not> str_truthy (header req ''if-modified-since'') \<and>
              \<not> str_truthy (header req ''cache-control'') then True
      else validators_match fw req res)"

text \<open>
  No body goes out with the statuses 204, 205 and 304, with a status from 100 to 199,
  or in answer to HEAD.
\<close>

definition bodiless :: "int \<Rightarrow> bool" where
  "bodiless st = (st = 204 \<or> st = 205 \<or> st = 304 \<or> (100 \<le> st \<and> st \<le> 199))"

text \<open>
  What \<^verbatim>\<open>res.json(v)\<close> sends, for a response that holds the status set so far and
  \<open>Json v\<close>, the value handed to \<^verbatim>\<open>res.json\<close>.
\<close>

definition send_json :: "framework \<Rightarrow> request \<Rightarrow> response \<Rightarrow> response" where
  "send_json fw req res =
     (case body res of
        Json v \<Rightarrow>
          (let text = res\<lparr>body := Json (wire v)\<rparr>;
               st = (if fresh fw req text then 304 else status text)
           in text\<lparr>status := st,
                   body := (if bodiless st \<or> req_method req = ''HEAD'' then No_body
                            else body text)\<rparr>)
      | _ \<Rightarrow> res)"

text \<open>
  The framework's own answers: the 404 page when no layer answers, and the error page
  when an error is left unhandled. For an error that names no status the page takes the
  status of the response when that is from 400 to 599, and 500 otherwise.
\<close>

definition framework_not_found :: "request \<Rightarrow> response \<Rightarrow> response" where
  "framework_not_found req res =
     res\<lparr>status := 404,
         body := (if req_method req = ''HEAD'' then No_body else Not_found_page)\<rparr>"

definition framework_error_page :: "request \<Rightarrow> response \<Rightarrow> response" where
  "framework_error_page req res =
     res\<lparr>status := (if 400 \<le> status res \<and> status res \<le> 599 then status res else 500),
         body := (if req_method req = ''HEAD'' then No_body else Error_page)\<rparr>"

text \<open>Lines 144 to 151: the object \<^verbatim>\<open>errorResponse\<close>.\<close>

definition error_object :: "env \<Rightarrow> js_error \<Rightarrow> request \<Rightarrow> (string \<times> jsval) list" where
  "error_object e err req =
     (let errorResponse =
            [(''error'', js_or (message err) (JStr ''Internal server error'')),
             (''requestId'', req_id req)]
      in if getenv e ''NODE_ENV'' \<noteq> Some ''production''
         then errorResponse @ [(''stack'', stack err)]
         else errorResponse)"

text \<open>
  Lines 142 to 154. When \<^verbatim>\<open>res.status\<close> throws, the error handler has thrown: no other
  error handler is installed, so the framework answers with its error page.
\<close>

definition error_handler ::
  "framework \<Rightarrow> env \<Rightarrow> js_error \<Rightarrow> request \<Rightarrow> response \<Rightarrow> response" where
  "error_handler fw e err req res =
     (let statusCode = js_or (statusCode err) (JNum 500);
          errorResponse = error_object e err req
      in case res_status statusCode res of
           Inl t \<Rightarrow> framework_error_page req res
         | Inr res' \<Rightarrow> send_json fw req (res'\<lparr>body := Json (JObj errorResponse)\<rparr>))"

section \<open>The application: layers in the order \<^verbatim>\<open>startServer\<close> installs them\<close>

text \<open>
  The security and logging middleware, the two body parsers and the six route groups
  are code outside \<^verbatim>\<open>index.js\<close>: each is a parameter of the model. Such a collaborator is
  given the request and the response. It passes the request on, or answers it, or
  fails. When it passes the request on or fails, it may have changed the request and
  the status and headers of the response in any way, headers taken away included; when
  it answers, the response is whatever it sends. A layer that fails after it has begun
  to send the response is a layer that answers, with what it had sent: the error handler
  cannot write to a response whose headers have gone out. So \<open>Throw\<close> is a failure
  before anything is sent.
\<close>

datatype collab_outcome =
    Next request int headers
  | Reply response
  | Throw js_error int headers

type_synonym collaborator = "request \<Rightarrow> response \<Rightarrow> collab_outcome"

record collaborators =
  security :: collaborator
  logging :: collaborator
  json_parser :: collaborator
  urlencoded_parser :: collaborator
  auth_routes :: collaborator
  user_routes :: collaborator
  sleep_routes :: collaborator
  competition_routes :: collaborator
  notification_routes :: collaborator
  invitation_routes :: collaborator

definition collab_step :: "collaborator \<Rightarrow> request \<Rightarrow> response \<Rightarrow> step" where
  "collab_step c req res =
     (case c req res of
        Next req' st hs \<Rightarrow> Continue req' (res\<lparr>status := st, res_headers := hs\<rparr>)
      | Reply out \<Rightarrow> Finished out
      | Throw err st hs \<Rightarrow> Failed err (res\<lparr>status := st, res_headers := hs\<rparr>))"


datatype stage =
    Security
  | Logging
  | Json_parser
  | Urlencoded_parser
  | Reflective_cors
  | Cors_test
  | Route_group string
  | Health
  | Error_handler
  | Framework_not_found

text \<open>
  How the framework matches a path, with its default settings: letters compare without
  case and one trailing slash is allowed. \<^verbatim>\<open>app.get\<close> also serves HEAD; a group mounted
  with \<^verbatim>\<open>app.use(prefix, ...)\<close> serves every method at the prefix and below it.
\<close>

definition lower :: "char \<Rightarrow> char" where
  "lower c =
     (let n = (of_char c :: nat) in if 65 \<le> n \<and> n \<le> 90 then char_of (n + 32) else c)"

definition path_is :: "string \<Rightarrow> string \<Rightarrow> bool" where
  "path_is pat p = (let q = map lower p in q = pat \<or> q = pat @ ''/'')"

definition path_under :: "string \<Rightarrow> string \<Rightarrow> bool" where
  "path_under pre p = (let q = map lower p in q = pre \<or> prefix (pre @ ''/'') q)"

definition is_get :: "request \<Rightarrow> bool" where
  "is_get req = (req_method req = ''GET'' \<or> req_method req = ''HEAD'')"

record layer =
  stage_of :: stage
  applies :: "request \<Rightarrow> bool"
  act :: "framework \<Rightarrow> env \<Rightarrow> string \<Rightarrow> request \<Rightarrow> response \<Rightarrow> step \<times> string list"

definition middleware :: "stage \<Rightarrow> collaborator \<Rightarrow> layer" where
  "middleware s c =
     \<lparr>stage_of = s, applies = (\<lambda>req. True),
      act = (\<lambda>fw e now req res. (collab_step c req res, []))\<rparr>"

definition route_group :: "string \<Rightarrow> collaborator \<Rightarrow> layer" where
  "route_group pre c =
     \<lparr>stage_of = Route_group pre, applies = (\<lambda>req. path_under pre (req_path req)),
      act = (\<lambda>fw e now req res. (collab_step c req res, []))\<rparr>"

text \<open>A route of \<^verbatim>\<open>index.js\<close>: the handler's calls, and what \<^verbatim>\<open>res.json\<close> sends for them.\<close>

definition get_route :: "stage \<Rightarrow> string \<Rightarrow>
    (env \<Rightarrow> string \<Rightarrow> request \<Rightarrow> response \<Rightarrow> response) \<Rightarrow> layer" where
  "get_route s pat h =
     \<lparr>stage_of = s, applies = (\<lambda>req. is_get req \<and> path_is pat (req_path req)),
      act = (\<lambda>fw e now req res. (Finished (send_json fw req (h e now req res)), []))\<rparr>"

definition cors_layer :: layer where
  "cors_layer =
     \<lparr>stage_of = Reflective_cors, applies = (\<lambda>req. True),
      act = (\<lambda>fw e now req res. cors_middleware e req res)\<rparr>"

text \<open>Lines 88 to 91: the layers before the reflective CORS middleware.\<close>

definition earlier_layers :: "collaborators \<Rightarrow> layer list" where
  "earlier_layers c =
     [middleware Security (security c),
      middleware Logging (logging c),
      middleware Json_parser (json_parser c),
      middleware Urlencoded_parser (urlencoded_parser c)]"

text \<open>Lines 109 to 139: the routes, in the order they are registered.\<close>

definition route_layers :: "collaborators \<Rightarrow> layer list" where
  "route_layers c =
     [get_route Cors_test ''/api/cors-test'' cors_test_handler,
      route_group ''/api/auth'' (auth_routes c),
      route_group ''/api/users'' (user_routes c),
      route_group ''/api/sleep'' (sleep_routes c),
      route_group ''/api/competitions'' (competition_routes c),
      route_group ''/api/notifications'' (notification_routes c),
      route_group ''/api/invitations'' (invitation_routes c),
      get_route Health ''/api/health'' health_handler]"



definition app :: "collaborators \<Rightarrow> layer list" where
  "app c = earlier_layers c @ cors_layer # route_layers c"

text \<open>
  The state of one request on its way through the layers: the response so far, the
  stages that have run, and the lines logged by \<^verbatim>\<open>index.js\<close>.
\<close>

record handled =
  resp :: response
  visited :: "stage list"
  logs :: "string list"

definition start :: handled where
  "start = \<lparr>resp = fresh_response, visited = [], logs = []\<rparr>"

text \<open>
  The framework's dispatch. A layer that does not apply is skipped. An error goes to the
  error handler of lines 142 to 154, the only error-handling layer, past every other
  layer. A request that no layer answers gets the framework's 404 page.
\<close>

fun run ::
  "framework \<Rightarrow> layer list \<Rightarrow> env \<Rightarrow> string \<Rightarrow> request \<Rightarrow> handled \<Rightarrow> handled" where
  "run fw [] e now req h =
     \<lparr>resp = framework_not_found req (resp h),
      visited = visited h @ [Framework_not_found],
      logs = logs h\<rparr>"
| "run fw (l # ls) e now req h =
     (if applies l req
      then (case act l fw e now req (resp h) of
              (Continue req' res', lg) \<Rightarrow>
                run fw ls e now req'
                  \<lparr>resp = res', visited = visited h @ [stage_of l], logs = logs h @ lg\<rparr>
            | (Finished res', lg) \<Rightarrow>
                \<lparr>resp = res', visited = visited h @ [stage_of l], logs = logs h @ lg\<rparr>
            | (Failed err res', lg) \<Rightarrow>
                \<lparr>resp = error_handler fw e err req res',
                 visited = visited h @ [stage_of l, Error_handler],
                 logs = logs h @ lg\<rparr>)
      else run fw ls e now req h)"

definition handle ::
  "framework \<Rightarrow> collaborators \<Rightarrow> env \<Rightarrow> string \<Rightarrow> request \<Rightarrow> handled" where
  "handle fw c e now req = run fw (app c) e now req start"

text \<open>
  A request gets through a list of layers when each layer that applies passes it on:
  the request and the state with which the next layer is then entered.
\<close>

fun pass_through ::
  "framework \<Rightarrow> layer list \<Rightarrow> env \<Rightarrow> string \<Rightarrow> request \<Rightarrow> handled \<Rightarrow>
     (request \<times> handled) option" where
  "pass_through fw [] e now req h = Some (req, h)"
| "pass_through fw (l # ls) e now req h =
     (if applies l req
      then (case act l fw e now req (resp h) of
              (Continue req' res', lg) \<Rightarrow>
                pass_through fw ls e now req'
                  \<lparr>resp = res', visited = visited h @ [stage_of l], logs = logs h @ lg\<rparr>
            | (Finished res', lg) \<Rightarrow> None
            | (Failed err res', lg) \<Rightarrow> None)
      else pass_through fw ls e now req h)"

text \<open>
  The request reaches the reflective CORS middleware when it gets through the layers
  before it.
\<close>

definition reaches_cors ::
  "framework \<Rightarrow> collaborators \<Rightarrow> env \<Rightarrow> string \<Rightarrow> request \<Rightarrow>
     (request \<times> handled) option" where
  "reaches_cors fw c e now req = pass_through fw (earlier_layers c) e now req start"



fun is_route :: "stage \<Rightarrow> bool" where
  "is_route Cors_test = True"
| "is_route (Route_group p) = True"
| "is_route Health = True"
| "is_route s = False"

text \<open>
  The response as the reflective CORS middleware leaves it, whether it ends the response
  or passes the request on.
\<close>

definition cors_response :: "env \<Rightarrow> request \<Rightarrow> response \<Rightarrow> response" where
  "cors_response e req res =
     (case fst (cors_middleware e req res) of
        Continue req' res' \<Rightarrow> res'
      | Finished res' \<Rightarrow> res'
      | Failed err res' \<Rightarrow> res)"

section \<open>Worked inputs\<close>

text \<open>
  Worlds for the startup: a production deployment whose credential variable does not
  parse, and a development machine with a local key file and a data-access object that
  offers \<^verbatim>\<open>queryDocuments\<close> and nothing else.
\<close>

definition world_bad_blob :: world where
  "world_bad_blob =
     \<lparr>process_env =
        [(''NODE_ENV'', ''production''), (''FIREBASE_SERVICE_ACCOUNT'', ''{not json'')],
      json_parse = (\<lambda>s. None),
      require_json = (\<lambda>p. Some (JObj [(''project_id'', JStr ''local'')])),
      initialize_app = (\<lambda>sa. True),
      firestore_handle = Some (JObj []),
      firestore_utils = (\<lambda>fs. Some (JObj [(''queryDocuments'', JFun [])]))\<rparr>"

definition world_dev :: world where
  "world_dev =
     \<lparr>process_env = [(''FIREBASE_SERVICE_ACCOUNT'', ''{}'')],
      json_parse = (\<lambda>s. Some (JObj [])),
      require_json = (\<lambda>p. if p = ''./serviceAccountKey.json''
                          then Some (JObj [(''project_id'', JStr ''local'')]) else None),
      initialize_app = (\<lambda>sa. True),
      firestore_handle = Some (JObj []),
      firestore_utils = (\<lambda>fs. Some (JObj [(''queryDocuments'', JFun [])]))\<rparr>"

text \<open>
  Collaborators for the request path: a security layer that adds a header, a logging
  layer that gives the request an identifier, parsers that pass the request on, and route
  groups of which the users group fails with a 404 error. Then two variations: a JSON
  parser that fails with the 400 error of a body that does not parse, and a users group
  that takes \<^verbatim>\<open>Access-Control-Allow-Origin\<close> off the response before it answers. The
  framework's comparison of validators is one that never finds a match.
\<close>

definition plain_framework :: framework where
  "plain_framework = \<lparr>validators_match = (\<lambda>req res. False)\<rparr>"

definition pass_on :: collaborator where
  "pass_on req res = Next req (status res) (res_headers res)"

definition add_nosniff :: collaborator where
  "add_nosniff req res =
     Next req (status res) (AList.update ''X-Content-Type-Options'' ''nosniff'' (res_headers res))"

definition assign_id :: collaborator where
  "assign_id req res = Next (req\<lparr>req_id := JStr ''req-1''\<rparr>) (status res) (res_headers res)"

definition user_not_found :: collaborator where
  "user_not_found req res =
     Throw \<lparr>statusCode = JNum 404, message = JStr ''User not found'',
            stack = JStr ''Error: User not found''\<rparr> (status res) (res_headers res)"

definition body_does_not_parse :: collaborator where
  "body_does_not_parse req res =
     Throw \<lparr>statusCode = JNum 400, message = JStr ''Unexpected end of JSON input'',
            stack = JStr ''SyntaxError: Unexpected end of JSON input''\<rparr>
       (status res) (res_headers res)"


definition example_collaborators :: collaborators where
  "example_collaborators =
     \<lparr>security = add_nosniff, logging = assign_id,
      json_parser = pass_on, urlencoded_parser = pass_on,
      auth_routes = pass_on, user_routes = user_not_found, sleep_routes = pass_on,
      competition_routes = pass_on, notification_routes = pass_on,
      invitation_routes = pass_on\<rparr>"

definition strict_parser_collaborators :: collaborators where
  "strict_parser_collaborators = example_collaborators\<lparr>json_parser := body_does_not_parse\<rparr>"


definition preflight_request :: request where
  "preflight_request =
     \<lparr>req_method = ''OPTIONS'', req_path = ''/api/users/42'',
      req_headers = [(''origin'', ''https://pilves.github.io'')], req_id = JUndefined\<rparr>"

definition health_request :: request where
  "health_request =
     \<lparr>req_method = ''GET'', req_path = ''/api/health'',
      req_headers = [(''origin'', ''http://localhost:5173'')], req_id = JUndefined\<rparr>"

definition conditional_health_request :: request where
  "conditional_health_request =
     \<lparr>req_method = ''GET'', req_path = ''/api/health'',
      req_headers = [(''if-none-match'', ''*'')], req_id = JUndefined\<rparr>"

definition user_request :: request where
  "user_request =
     \<lparr>req_method = ''GET'', req_path = ''/api/users/42'',
      req_headers = [], req_id = JUndefined\<rparr>"

section \<open>Facts about the building blocks\<close>

lemma map_of_update:
  "map_of (AList.update k v al) k' = (if k' = k then Some v else map_of al k')"
  by (simp add: update_conv')



text \<open>
  What \<^verbatim>\<open>JSON.stringify\<close> does with strings, and \<^verbatim>\<open>split\<close> against \<^verbatim>\<open>join\<close>: joining the pieces
  gives the string back, and no piece holds the separator.
\<close>

lemma wire_strs [simp]:
  "map (\<lambda>w. if w = JUndefined then JNull else w) (map wire (map JStr xs)) = map JStr xs"
  by (induction xs) auto

lemma json_property_str [simp]: "json_property (JStr s) = Some (JStr s)"
  by (simp add: json_property_def)

lemma json_property_undefined [simp]: "json_property JUndefined = None"
  by (simp add: json_property_def)

lemma split_on_not_empty [simp]: "split_on c s \<noteq> []"
  by (induction s) (auto split: list.splits)

lemma join_split: "join_with c (split_on c s) = s"
proof (induction s)
  case Nil
  then show ?case by simp
next
  case (Cons x xs)
  obtain w ws where sp: "split_on c xs = w # ws"
    by (cases "split_on c xs") auto
  with Cons show ?case
    by (cases ws) auto
qed

lemma split_on_free: "w \<in> set (split_on c s) \<Longrightarrow> c \<notin> set w"
  by (induction s arbitrary: w) (auto split: if_splits list.splits)

text \<open>
  The framework leaves the headers set by \<^verbatim>\<open>res.header\<close> as they are when it sends a JSON
  body, its 404 page or its error page. A response to an unconditional request, or with
  an error status, is never turned into a 304.
\<close>

lemma send_json_headers [simp]: "res_headers (send_json fw req res) = res_headers res"
  by (simp add: send_json_def Let_def split: body.splits)

lemma error_handler_headers [simp]:
  "res_headers (error_handler fw e err req res) = res_headers res"
  by (simp add: error_handler_def Let_def res_status_def framework_error_page_def
        split: sum.splits jsval.splits if_splits)

lemma framework_not_found_headers [simp]:
  "res_headers (framework_not_found req res) = res_headers res"
  by (simp add: framework_not_found_def)

lemma unconditional_not_fresh: "\<not> conditional req \<Longrightarrow> \<not> fresh fw req res"
  by (simp add: fresh_def)

lemma error_status_not_fresh: "400 \<le> status res \<Longrightarrow> \<not> fresh fw req res"
  by (simp add: fresh_def)

lemma send_health:
  assumes "req_method r = ''GET''" and "\<not> conditional r"
  shows "send_json fw r (health_handler e now r res) =
     (health_handler e now r res)"
  using assms unconditional_not_fresh [OF assms(2)]
  by (simp add: send_json_def Let_def health_handler_def bodiless_def)

text \<open>
  \<^verbatim>\<open>res.status\<close> accepts exactly the integers from 100 to 999. With such a status the
  error handler sends its JSON body; with any other value it throws and the framework's
  error page goes out.
\<close>

lemma res_status_accepts:
  "100 \<le> n \<Longrightarrow> n \<le> 999 \<Longrightarrow> res_status (JNum (of_int n)) res = Inr (res\<lparr>status := n\<rparr>)"
  by (simp add: res_status_def is_integer_def)


lemma error_handler_accepted:
  assumes "js_or (statusCode err) (JNum 500) = JNum (of_int n)" and "100 \<le> n" and "n \<le> 999"
  shows "error_handler fw e err req res =
           send_json fw req (res\<lparr>status := n, body := Json (JObj (error_object e err req))\<rparr>)"
  using assms by (simp add: error_handler_def Let_def res_status_accepts)


lemma error_handler_error_status:
  assumes "js_or (statusCode err) (JNum 500) = JNum (of_int n)" and "400 \<le> n" and "n \<le> 999"
  shows "status (error_handler fw e err req res) = n"
    and "req_method req \<noteq> ''HEAD'' \<Longrightarrow>
         body (error_handler fw e err req res) = Json (wire (JObj (error_object e err req)))"
proof -
  from assms have eq: "error_handler fw e err req res =
      send_json fw req (res\<lparr>status := n, body := Json (JObj (error_object e err req))\<rparr>)"
    by (intro error_handler_accepted) auto
  have nf: "\<not> fresh fw req (res\<lparr>status := n, body := b\<rparr>)" for b
    using assms(2) by (simp add: error_status_not_fresh)
  show "status (error_handler fw e err req res) = n"
    by (simp add: eq send_json_def Let_def nf)
  show "body (error_handler fw e err req res) = Json (wire (JObj (error_object e err req)))"
    if "req_method req \<noteq> ''HEAD''"
    using that assms(2) by (simp add: eq send_json_def Let_def nf bodiless_def)
qed

lemma error_handler_json_body:
  assumes "body (error_handler fw e err req res) = Json v"
  shows "v = wire (JObj (error_object e err req))"
proof (cases "res_status (js_or (statusCode err) (JNum 500)) res")
  case (Inl t)
  with assms show ?thesis
    by (simp add: error_handler_def Let_def framework_error_page_def split: if_splits)
next
  case (Inr out)
  with assms show ?thesis
    by (simp add: error_handler_def Let_def send_json_def split: if_splits)
qed

lemma error_object_fields:
  "field ''error'' (Json (wire (JObj (error_object e err req)))) =
     json_property (js_or (message err) (JStr ''Internal server error''))"
  "field ''requestId'' (Json (wire (JObj (error_object e err req)))) = json_property (req_id req)"
  "field ''stack'' (Json (wire (JObj (error_object e err req)))) =
     (if getenv e ''NODE_ENV'' \<noteq> Some ''production'' then json_property (stack err) else None)"
  by (simp_all add: error_object_def Let_def json_property_def)

lemma fallback_property:
  "message err = JUndefined \<or> message err = JStr [] \<Longrightarrow>
   json_property (js_or (message err) (JStr ''Internal server error'')) =
     Some (JStr ''Internal server error'')"
  by (auto simp: js_or_def)

text \<open>
  Once a request has got through a prefix of the layers, the rest decides.
\<close>

lemma run_append:
  "pass_through fw xs e now req h = Some (r, h') \<Longrightarrow>
   run fw (xs @ ys) e now req h = run fw ys e now r h'"
  by (induction xs arbitrary: req h) (auto split: if_splits prod.splits step.splits)

lemma reaches_cors_state:
  assumes "reaches_cors fw c e now req = Some (r, h)"
  shows "body (resp h) = No_body \<and>
         visited h = [Security, Logging, Json_parser, Urlencoded_parser] \<and> logs h = []"
  using assms
  by (auto simp: reaches_cors_def earlier_layers_def middleware_def collab_step_def start_def
        fresh_response_def
        split: collab_outcome.splits)

lemma handle_from_cors:
  assumes "reaches_cors fw c e now req = Some (r, h)"
  shows "handle fw c e now req = run fw (cors_layer # route_layers c) e now r h"
  using assms unfolding handle_def app_def reaches_cors_def
  by (rule run_append)





lemma cors_response_options:
  "req_method r = ''OPTIONS'' \<Longrightarrow>
   cors_response e r res =
     (set_header ''Access-Control-Expose-Headers'' ''Content-Length, Content-Range''
       (set_header ''Access-Control-Allow-Credentials'' ''true''
         (set_header ''Access-Control-Allow-Headers''
            ''Content-Type, Authorization, DNT, User-Agent, X-Requested-With, If-Modified-Since, Cache-Control, Range''
           (set_header ''Access-Control-Allow-Methods'' ''GET, POST, PUT, DELETE, OPTIONS''
             (set_header ''Access-Control-Allow-Origin''
                (or_default (header r ''origin'') ''*'') res)))))\<lparr>status := 200\<rparr>"
  by (simp add: cors_response_def cors_middleware_def Let_def)

lemma after_cors:
  "req_method r \<noteq> ''OPTIONS'' \<Longrightarrow>
   run fw (cors_layer # ls) e now r h =
     run fw ls e now r
       \<lparr>resp = cors_response e r (resp h), visited = visited h @ [Reflective_cors],
        logs = logs h\<rparr>"
  by (simp add: cors_layer_def cors_response_def cors_middleware_def Let_def)

text \<open>
  The worked collaborators: where the request stands when it comes to the reflective
  CORS middleware, and what happens when the JSON parser fails.
\<close>

lemma example_reaches_cors:
  "reaches_cors fw example_collaborators e now req =
     Some (req\<lparr>req_id := JStr ''req-1''\<rparr>,
           \<lparr>resp = \<lparr>status = 200,
                    res_headers = [(''X-Content-Type-Options'', ''nosniff'')],
                    body = No_body\<rparr>,
            visited = [Security, Logging, Json_parser, Urlencoded_parser],
            logs = []\<rparr>)"
  by (simp add: reaches_cors_def earlier_layers_def middleware_def collab_step_def
        example_collaborators_def add_nosniff_def assign_id_def pass_on_def start_def
        fresh_response_def)


lemma strict_parser_fails:
  "handle fw strict_parser_collaborators e now req =
     \<lparr>resp = error_handler fw e
        \<lparr>statusCode = JNum 400, message = JStr ''Unexpected end of JSON input'',
         stack = JStr ''SyntaxError: Unexpected end of JSON input''\<rparr>
        (req\<lparr>req_id := JStr ''req-1''\<rparr>)
        \<lparr>status = 200, res_headers = [(''X-Content-Type-Options'', ''nosniff'')],
         body = No_body\<rparr>,
      visited = [Security, Logging, Json_parser, Error_handler],
      logs = []\<rparr>"
  by (simp add: handle_def app_def earlier_layers_def middleware_def collab_step_def
        strict_parser_collaborators_def example_collaborators_def add_nosniff_def
        assign_id_def body_does_not_parse_def start_def fresh_response_def)

text \<open>
  \<^verbatim>\<open>||\<close> and \<^verbatim>\<open>&&\<close> go by truthiness, so a value that is there but falsy is treated like
  a missing one: an \<^verbatim>\<open>Origin\<close> header with an empty value is answered with \<^verbatim>\<open>*\<close>, an
  error whose \<^verbatim>\<open>statusCode\<close> is 0 is given the status 500, and an empty
  \<^verbatim>\<open>FIREBASE_SERVICE_ACCOUNT\<close> in production leads to the local key file.
\<close>

lemma empty_origin_is_answered_with_star:
  "header req ''origin'' = Some [] \<Longrightarrow>
   get_header (cors_response e req res) ''Access-Control-Allow-Origin'' = Some ''*''"
  by (simp add: cors_response_def cors_middleware_def Let_def set_header_def get_header_def
        map_of_update or_default_def)

lemma status_code_zero_gives_500:
  "statusCode err = JNum 0 \<Longrightarrow> js_or (statusCode err) (JNum 500) = JNum 500"
  by (simp add: js_or_def)

lemma empty_blob_loads_local_file:
  "getenv e ''FIREBASE_SERVICE_ACCOUNT'' = Some [] \<Longrightarrow>
   credential_source e = Local_file ''./serviceAccountKey.json''"
  by (simp add: credential_source_def)

section \<open>Startup\<close>

text \<open>
  C1. Every fatal failure of the initialization ends the process with exit code 1, after
  an error has been logged, and before anything is mounted or bound. The failures are:
  the credential cannot be read (the variable does not parse, or the local file does not
  load), \<^verbatim>\<open>admin.initializeApp\<close> or \<^verbatim>\<open>admin.firestore()\<close> throws, or the structural check
  of \<^verbatim>\<open>firestoreUtils\<close> fails. In each case the last two events are the error entry in the
  log and \<^verbatim>\<open>process.exit(1)\<close>, and no \<open>Mount\<close> and no \<open>Listen\<close> is among the events.
\<close>

theorem fatal_init_exits_before_mount:
  assumes "load_credential w = None
         \<or> (\<exists>sa. load_credential w = Some sa \<and> \<not> initialize_app w sa)
         \<or> firestore_handle w = None
         \<or> (\<exists>sa fs fu. load_credential w = Some sa \<and> initialize_app w sa \<and>
               firestore_handle w = Some fs \<and> firestore_utils w fs = Some fu \<and>
               facade_check_fails fu)"
  shows "outcome (startServer w) = Exited 1 \<and>
         (\<exists>before msg. events (startServer w) =
             before @ [Logged Error_level msg, Process_exit 1]) \<and>
         (\<forall>ev \<in> set (events (startServer w)). \<not> is_mount ev \<and> \<not> is_listen ev)"
  using assms
  by (auto simp: startServer_def initializeFirebaseAdmin_def init_failed_def
           split: option.splits)

theorem fatal_init_exits_before_mount_witness:
  "load_credential world_bad_blob = None \<and>
   startServer world_bad_blob =
     \<lparr>events = [Logged Info_level ''Environment variables loaded.'',
                Logged Error_level ''Error initializing Firebase Admin:'',
                Process_exit 1],
      outcome = Exited 1\<rparr>"
  using fatal_init_exits_before_mount [of world_bad_blob]
  by (simp add: world_bad_blob_def startServer_def initializeFirebaseAdmin_def init_failed_def
        load_credential_def credential_source_def getenv_def)

text \<open>
  C4. The credential source is decided by the mode and the credential variable. When
  \<^verbatim>\<open>NODE_ENV\<close> is \<^verbatim>\<open>production\<close> and \<^verbatim>\<open>FIREBASE_SERVICE_ACCOUNT\<close> holds a blob (a string that
  is not empty), the credential is that blob parsed as JSON. In every other case (another
  mode, or the variable missing or empty) it is loaded from the fixed relative path
  \<^verbatim>\<open>./serviceAccountKey.json\<close>. The value so obtained is the only one
  \<^verbatim>\<open>admin.initializeApp\<close> is called with.
\<close>

theorem credential_source_selection:
  "(getenv (process_env w) ''NODE_ENV'' = Some ''production'' \<and>
    getenv (process_env w) ''FIREBASE_SERVICE_ACCOUNT'' = Some blob \<and> blob \<noteq> [] \<longrightarrow>
      credential_source (process_env w) = Env_blob blob \<and>
      load_credential w = json_parse w blob) \<and>
   (\<not> (getenv (process_env w) ''NODE_ENV'' = Some ''production'' \<and>
        str_truthy (getenv (process_env w) ''FIREBASE_SERVICE_ACCOUNT'')) \<longrightarrow>
      credential_source (process_env w) = Local_file ''./serviceAccountKey.json'' \<and>
      load_credential w = require_json w ''./serviceAccountKey.json'') \<and>
   (\<forall>sa. Initialize_app sa \<in> set (fst (initializeFirebaseAdmin w)) \<longrightarrow>
      load_credential w = Some sa)"
  by (auto simp: credential_source_def load_credential_def str_truthy_def
        initializeFirebaseAdmin_def init_failed_def
        split: option.splits if_splits)

theorem credential_source_selection_witness:
  "credential_source (process_env world_bad_blob) = Env_blob ''{not json'' \<and>
   load_credential world_bad_blob = json_parse world_bad_blob ''{not json'' \<and>
   credential_source (process_env world_dev) = Local_file ''./serviceAccountKey.json'' \<and>
   load_credential world_dev = Some (JObj [(''project_id'', JStr ''local'')]) \<and>
   fst (initializeFirebaseAdmin world_dev) =
     [Initialize_app (JObj [(''project_id'', JStr ''local'')]),
      Logged Info_level ''Firebase Admin initialized successfully'']"
  using credential_source_selection [of world_bad_blob "''{not json''"]
    credential_source_selection [of world_dev "''{}''"]
  by (simp add: world_bad_blob_def world_dev_def getenv_def str_truthy_def
        initializeFirebaseAdmin_def load_credential_def credential_source_def)

text \<open>
  C8. The structural check of \<^verbatim>\<open>firestoreUtils\<close> passes exactly for the values that are
  truthy and whose \<^verbatim>\<open>queryDocuments\<close> property is a function. No other operation is asked
  for: an object passes whatever else it has or lacks, as long as \<^verbatim>\<open>queryDocuments\<close> is a
  function. Once the store is initialized and the data-access object is built, the
  startup goes on to listen exactly when the check passes.
\<close>

theorem facade_check_exact:
  "(\<not> facade_check_fails fu) =
     (truthy fu \<and> (\<exists>q. get_prop fu ''queryDocuments'' = Some q \<and> typeof q = ''function'')) \<and>
   (\<forall>ps f. map_of ps ''queryDocuments'' = Some (JFun f) \<longrightarrow> \<not> facade_check_fails (JObj ps)) \<and>
   (\<forall>sa fs. load_credential w = Some sa \<and> initialize_app w sa \<and>
            firestore_handle w = Some fs \<and> firestore_utils w fs = Some fu \<longrightarrow>
      (outcome (startServer w) = Listen_called) = (\<not> facade_check_fails fu))"
proof -
  have 1: "(\<not> facade_check_fails fu) =
     (truthy fu \<and> (\<exists>q. get_prop fu ''queryDocuments'' = Some q \<and> typeof q = ''function''))"
    by (cases fu) (auto simp: facade_check_fails_def split: option.splits)
  have 2: "\<not> facade_check_fails (JObj ps)" if "map_of ps ''queryDocuments'' = Some (JFun f)"
    for ps f
    using that by (simp add: facade_check_fails_def)
  have 3: "(outcome (startServer w) = Listen_called) = (\<not> facade_check_fails fu)"
    if "load_credential w = Some sa \<and> initialize_app w sa \<and>
        firestore_handle w = Some fs \<and> firestore_utils w fs = Some fu" for sa fs
    using that by (simp add: startServer_def initializeFirebaseAdmin_def Let_def)
  from 1 2 3 show ?thesis by blast
qed

theorem facade_check_exact_witness:
  "\<not> facade_check_fails (JObj [(''queryDocuments'', JFun [])]) \<and>
   facade_check_fails (JObj [(''createDocument'', JFun []), (''updateDocument'', JFun [])]) \<and>
   firestore_utils world_dev (JObj []) = Some (JObj [(''queryDocuments'', JFun [])]) \<and>
   outcome (startServer world_dev) = Listen_called"
  using facade_check_exact [of "JObj [(''queryDocuments'', JFun [])]" world_dev]
    facade_check_exact [of "JObj [(''createDocument'', JFun []), (''updateDocument'', JFun [])]"
      world_dev]
  by (simp add: world_dev_def load_credential_def credential_source_def getenv_def)

section \<open>The terminal error handler\<close>




text \<open>
  C10. As stated, the claim gives every response to an error without a message the
  fallback text in its \<^verbatim>\<open>error\<close> property. What holds: when the error's message is
  absent or the empty string, every JSON body the error handler sends has the fixed text
  \<^verbatim>\<open>Internal server error\<close> as its \<^verbatim>\<open>error\<close> property; and it sends a JSON body whenever
  \<^verbatim>\<open>err.statusCode || 500\<close> is an integer from 400 to 999 and the request is not HEAD.
\<close>

theorem empty_message_fallback:
  assumes "message err = JUndefined \<or> message err = JStr []"
  shows "(\<forall>v. body (error_handler fw e err req res) = Json v \<longrightarrow>
            field ''error'' (Json v) = Some (JStr ''Internal server error'')) \<and>
         (\<forall>n. js_or (statusCode err) (JNum 500) = JNum (of_int n) \<and> 400 \<le> n \<and> n \<le> 999 \<and>
              req_method req \<noteq> ''HEAD'' \<longrightarrow>
            (\<exists>v. body (error_handler fw e err req res) = Json v))"
proof -
  have 1: "field ''error'' (Json v) = Some (JStr ''Internal server error'')"
    if "body (error_handler fw e err req res) = Json v" for v
    unfolding error_handler_json_body [OF that]
    by (simp only: error_object_fields fallback_property [OF assms])
  have 2: "\<exists>v. body (error_handler fw e err req res) = Json v"
    if "js_or (statusCode err) (JNum 500) = JNum (of_int n) \<and> 400 \<le> n \<and> n \<le> 999 \<and>
        req_method req \<noteq> ''HEAD''" for n
    using that error_handler_error_status(2) [where err = err and n = n and fw = fw and e = e and req = req and res = res] by blast
  from 1 2 show ?thesis by blast
qed

theorem empty_message_fallback_witness:
  "field ''error'' (body (error_handler plain_framework []
      \<lparr>statusCode = JUndefined, message = JStr [], stack = JStr ''Error''\<rparr>
      user_request fresh_response)) = Some (JStr ''Internal server error'') \<and>
   status (error_handler plain_framework []
      \<lparr>statusCode = JUndefined, message = JStr [], stack = JStr ''Error''\<rparr>
      user_request fresh_response) = 500"
proof -
  note t = empty_message_fallback [where fw = plain_framework and e = "[]"
      and err = "\<lparr>statusCode = JUndefined, message = JStr [], stack = JStr ''Error''\<rparr>"
      and req = user_request and res = fresh_response]
  have m: "message \<lparr>statusCode = JUndefined, message = JStr [], stack = JStr ''Error''\<rparr> =
             JUndefined \<or>
           message \<lparr>statusCode = JUndefined, message = JStr [], stack = JStr ''Error''\<rparr> =
             JStr []"
    by simp
  have n: "js_or (statusCode \<lparr>statusCode = JUndefined, message = JStr [],
                   stack = JStr ''Error''\<rparr>) (JNum 500) = JNum (of_int 500) \<and>
           (400::int) \<le> 500 \<and> (500::int) \<le> 999 \<and> req_method user_request \<noteq> ''HEAD''"
    by (simp add: js_or_def user_request_def)
  from t [OF m, THEN conjunct2, THEN spec, THEN mp, OF n]
  obtain v where v: "body (error_handler plain_framework []
      \<lparr>statusCode = JUndefined, message = JStr [], stack = JStr ''Error''\<rparr>
      user_request fresh_response) = Json v"
    by blast
  have f: "field ''error'' (body (error_handler plain_framework []
      \<lparr>statusCode = JUndefined, message = JStr [], stack = JStr ''Error''\<rparr>
      user_request fresh_response)) = Some (JStr ''Internal server error'')"
    using t [OF m, THEN conjunct1, THEN spec, THEN mp, OF v] unfolding v .
  have s: "status (error_handler plain_framework []
      \<lparr>statusCode = JUndefined, message = JStr [], stack = JStr ''Error''\<rparr>
      user_request fresh_response) = 500"
    by (simp add: error_handler_def error_object_def js_or_def getenv_def Let_def
          res_status_def is_integer_def send_json_def fresh_def bodiless_def
          fresh_response_def user_request_def)
  from f s show ?thesis by (intro conjI)
qed

text \<open>
  An error with an empty message and the \<^verbatim>\<open>statusCode\<close> 1000: the response is the
  framework's error page, which has no \<^verbatim>\<open>error\<close> property.
\<close>

theorem empty_message_invalid_status:
  "body (error_handler plain_framework []
      \<lparr>statusCode = JNum 1000, message = JStr [], stack = JStr ''Error''\<rparr>
      user_request fresh_response) = Error_page \<and>
   field ''error'' (body (error_handler plain_framework []
      \<lparr>statusCode = JNum 1000, message = JStr [], stack = JStr ''Error''\<rparr>
      user_request fresh_response)) = None"
  by (simp add: error_handler_def error_object_def js_or_def getenv_def Let_def
        res_status_def is_integer_def framework_error_page_def fresh_response_def
        user_request_def)

section \<open>The reflective CORS middleware\<close>

text \<open>
  C5. The reflective CORS middleware sets \<^verbatim>\<open>Access-Control-Allow-Origin\<close> to the value of
  the request's \<^verbatim>\<open>Origin\<close> header, and to \<^verbatim>\<open>*\<close> when the request has none (no header, or
  one with an empty value); it sets \<^verbatim>\<open>Access-Control-Allow-Credentials\<close> to \<^verbatim>\<open>true\<close>. What it
  does is the same for every environment, so for production as for any other mode.
\<close>

theorem reflective_cors_origin:
  "get_header (cors_response e req res) ''Access-Control-Allow-Origin'' =
     Some (or_default (header req ''origin'') ''*'') \<and>
   (\<forall>v. header req ''origin'' = Some v \<and> v \<noteq> [] \<longrightarrow>
      get_header (cors_response e req res) ''Access-Control-Allow-Origin'' = Some v) \<and>
   (\<not> str_truthy (header req ''origin'') \<longrightarrow>
      get_header (cors_response e req res) ''Access-Control-Allow-Origin'' = Some ''*'') \<and>
   get_header (cors_response e req res) ''Access-Control-Allow-Credentials'' = Some ''true'' \<and>
   cors_middleware e req res = cors_middleware e' req res"
  by (auto simp: cors_response_def cors_middleware_def Let_def set_header_def get_header_def
        map_of_update or_default_def str_truthy_def split: option.splits)

theorem reflective_cors_origin_witness:
  "get_header (cors_response [(''NODE_ENV'', ''production'')] preflight_request fresh_response)
     ''Access-Control-Allow-Origin'' = Some ''https://pilves.github.io'' \<and>
   get_header (cors_response [(''NODE_ENV'', ''production'')] user_request fresh_response)
     ''Access-Control-Allow-Origin'' = Some ''*'' \<and>
   get_header (cors_response [(''NODE_ENV'', ''production'')] user_request fresh_response)
     ''Access-Control-Allow-Credentials'' = Some ''true'' \<and>
   cors_middleware [(''NODE_ENV'', ''production'')] user_request fresh_response =
     cors_middleware [] user_request fresh_response"
  using reflective_cors_origin
      [of "[(''NODE_ENV'', ''production'')]" preflight_request fresh_response "[]"]
    reflective_cors_origin
      [of "[(''NODE_ENV'', ''production'')]" user_request fresh_response "[]"]
  by (simp add: header_def preflight_request_def user_request_def str_truthy_def
        or_default_def)

text \<open>
  C3. As stated, the claim is about every inbound OPTIONS request. What holds: an
  OPTIONS request that comes to the reflective CORS middleware is answered there,
  whatever its path and whatever layers are installed after the middleware: the status
  is 200, the five CORS headers are set, the middleware writes no body, and no later
  layer runs. The security and logging middleware and the two body parsers are installed
  before it (lines 88 to 91); for an OPTIONS request that they pass on, the answer of the
  whole application is: status 200, an empty body, and only those layers and the
  middleware among the stages that ran, so no route.
\<close>

theorem options_short_circuit:
  assumes "req_method r = ''OPTIONS''"
  shows "run fw (cors_layer # ls) e now r h =
           \<lparr>resp = cors_response e r (resp h),
            visited = visited h @ [Reflective_cors],
            logs = logs h @ [''Handling OPTIONS request from '' @
                             or_default (header r ''origin'') ''unknown origin'']\<rparr> \<and>
         status (cors_response e r res) = 200 \<and>
         body (cors_response e r res) = body res \<and>
         get_header (cors_response e r res) ''Access-Control-Allow-Origin'' =
           Some (or_default (header r ''origin'') ''*'') \<and>
         get_header (cors_response e r res) ''Access-Control-Allow-Methods'' =
           Some ''GET, POST, PUT, DELETE, OPTIONS'' \<and>
         get_header (cors_response e r res) ''Access-Control-Allow-Headers'' =
           Some ''Content-Type, Authorization, DNT, User-Agent, X-Requested-With, If-Modified-Since, Cache-Control, Range'' \<and>
         get_header (cors_response e r res) ''Access-Control-Allow-Credentials'' =
           Some ''true'' \<and>
         get_header (cors_response e r res) ''Access-Control-Expose-Headers'' =
           Some ''Content-Length, Content-Range'' \<and>
         (reaches_cors fw c e now req = Some (r, h) \<longrightarrow>
            handle fw c e now req = run fw (cors_layer # route_layers c) e now r h \<and>
            status (resp (handle fw c e now req)) = 200 \<and>
            body (resp (handle fw c e now req)) = No_body \<and>
            visited (handle fw c e now req) =
              [Security, Logging, Json_parser, Urlencoded_parser, Reflective_cors] \<and>
            (\<forall>s \<in> set (visited (handle fw c e now req)). \<not> is_route s))"
proof -
  have fin: "run fw (cors_layer # ls) e now r h =
        \<lparr>resp = cors_response e r (resp h),
         visited = visited h @ [Reflective_cors],
         logs = logs h @ [''Handling OPTIONS request from '' @
                          or_default (header r ''origin'') ''unknown origin'']\<rparr>" for ls
    using assms
    by (simp add: cors_layer_def cors_middleware_def cors_response_def Let_def)
  note pre = cors_response_options [OF assms]
  have 1: "status (cors_response e r res) = 200"
    by (simp add: pre)
  have 2: "body (cors_response e r res) = body res"
    by (simp add: pre set_header_def)
  have 3: "get_header (cors_response e r res) ''Access-Control-Allow-Origin'' =
           Some (or_default (header r ''origin'') ''*'')"
    by (simp add: pre set_header_def get_header_def map_of_update)
  have 4: "get_header (cors_response e r res) ''Access-Control-Allow-Methods'' =
           Some ''GET, POST, PUT, DELETE, OPTIONS''"
    by (simp add: pre set_header_def get_header_def map_of_update)
  have 5: "get_header (cors_response e r res) ''Access-Control-Allow-Headers'' =
           Some ''Content-Type, Authorization, DNT, User-Agent, X-Requested-With, If-Modified-Since, Cache-Control, Range''"
    by (simp add: pre set_header_def get_header_def map_of_update)
  have 6: "get_header (cors_response e r res) ''Access-Control-Allow-Credentials'' =
           Some ''true''"
    by (simp add: pre set_header_def get_header_def map_of_update)
  have 7: "get_header (cors_response e r res) ''Access-Control-Expose-Headers'' =
           Some ''Content-Length, Content-Range''"
    by (simp add: pre set_header_def get_header_def map_of_update)
  have 8: "handle fw c e now req = run fw (cors_layer # route_layers c) e now r h \<and>
            status (resp (handle fw c e now req)) = 200 \<and>
            body (resp (handle fw c e now req)) = No_body \<and>
            visited (handle fw c e now req) =
              [Security, Logging, Json_parser, Urlencoded_parser, Reflective_cors] \<and>
            (\<forall>s \<in> set (visited (handle fw c e now req)). \<not> is_route s)"
    if reach: "reaches_cors fw c e now req = Some (r, h)"
  proof -
    note st = reaches_cors_state [OF reach]
    have run: "handle fw c e now req = run fw (cors_layer # route_layers c) e now r h"
      by (rule handle_from_cors [OF reach])
    have eq: "handle fw c e now req =
        \<lparr>resp = cors_response e r (resp h),
         visited = visited h @ [Reflective_cors],
         logs = logs h @ [''Handling OPTIONS request from '' @
                          or_default (header r ''origin'') ''unknown origin'']\<rparr>"
      by (simp only: run fin)
    have a: "status (resp (handle fw c e now req)) = 200"
      by (simp add: eq pre)
    have b: "body (resp (handle fw c e now req)) = No_body"
      using st by (simp add: eq pre set_header_def)
    have v: "visited (handle fw c e now req) =
           [Security, Logging, Json_parser, Urlencoded_parser, Reflective_cors]"
      using st by (simp add: eq)
    have n: "\<forall>s \<in> set (visited (handle fw c e now req)). \<not> is_route s"
      by (simp add: v)
    from run a b v n show ?thesis by (intro conjI)
  qed
  have 9: "reaches_cors fw c e now req = Some (r, h) \<longrightarrow>
            handle fw c e now req = run fw (cors_layer # route_layers c) e now r h \<and>
            status (resp (handle fw c e now req)) = 200 \<and>
            body (resp (handle fw c e now req)) = No_body \<and>
            visited (handle fw c e now req) =
              [Security, Logging, Json_parser, Urlencoded_parser, Reflective_cors] \<and>
            (\<forall>s \<in> set (visited (handle fw c e now req)). \<not> is_route s)"
    by (rule impI) (rule 8)
  from fin [of ls] 1 2 3 4 5 6 7 9 show ?thesis
    by (intro conjI)
qed

theorem options_short_circuit_witness:
  "req_method (preflight_request\<lparr>req_id := JStr ''req-1''\<rparr>) = ''OPTIONS'' \<and>
   status (resp (handle plain_framework example_collaborators [] [] preflight_request)) = 200 \<and>
   body (resp (handle plain_framework example_collaborators [] [] preflight_request)) =
     No_body \<and>
   get_header (cors_response [] (preflight_request\<lparr>req_id := JStr ''req-1''\<rparr>) fresh_response)
     ''Access-Control-Allow-Origin'' = Some ''https://pilves.github.io'' \<and>
   visited (handle plain_framework example_collaborators [] [] preflight_request) =
     [Security, Logging, Json_parser, Urlencoded_parser, Reflective_cors]"
proof -
  have m: "req_method (preflight_request\<lparr>req_id := JStr ''req-1''\<rparr>) = ''OPTIONS''"
    by (simp add: preflight_request_def)
  note t = options_short_circuit [OF m, where e = "[]" and now = "[]" and res = fresh_response
      and c = example_collaborators and req = preflight_request and fw = plain_framework]
  have o: "or_default (header (preflight_request\<lparr>req_id := JStr ''req-1''\<rparr>) ''origin'') ''*'' =
      ''https://pilves.github.io''"
    by (simp add: header_def preflight_request_def or_default_def)
  have a: "get_header (cors_response [] (preflight_request\<lparr>req_id := JStr ''req-1''\<rparr>)
       fresh_response) ''Access-Control-Allow-Origin'' = Some ''https://pilves.github.io''"
    using t [THEN conjunct2, THEN conjunct2, THEN conjunct2, THEN conjunct1] unfolding o .
  note p = t [THEN conjunct2, THEN conjunct2, THEN conjunct2, THEN conjunct2, THEN conjunct2,
      THEN conjunct2, THEN conjunct2, THEN conjunct2, THEN mp, OF example_reaches_cors]
  have s: "status (resp (handle plain_framework example_collaborators [] [] preflight_request)) =
      200"
    by (rule p [THEN conjunct2, THEN conjunct1])
  have b: "body (resp (handle plain_framework example_collaborators [] [] preflight_request)) =
      No_body"
    by (rule p [THEN conjunct2, THEN conjunct2, THEN conjunct1])
  have v: "visited (handle plain_framework example_collaborators [] [] preflight_request) =
     [Security, Logging, Json_parser, Urlencoded_parser, Reflective_cors]"
    by (rule p [THEN conjunct2, THEN conjunct2, THEN conjunct2, THEN conjunct1])
  from m s b a v show ?thesis by (intro conjI)
qed

text \<open>
  An OPTIONS request whose body the JSON parser of line 90 refuses: the parser's error
  goes to the terminal error handler before the CORS middleware has run. The answer has
  status 400, a JSON body and no \<^verbatim>\<open>Access-Control-Allow-Origin\<close>.
\<close>

theorem options_body_does_not_parse:
  "status (resp (handle plain_framework strict_parser_collaborators [] [] preflight_request)) =
     400 \<and>
   body (resp (handle plain_framework strict_parser_collaborators [] [] preflight_request)) =
     Json (JObj [(''error'', JStr ''Unexpected end of JSON input''),
                 (''requestId'', JStr ''req-1''),
                 (''stack'', JStr ''SyntaxError: Unexpected end of JSON input'')]) \<and>
   get_header (resp (handle plain_framework strict_parser_collaborators [] [] preflight_request))
     ''Access-Control-Allow-Origin'' = None \<and>
   visited (handle plain_framework strict_parser_collaborators [] [] preflight_request) =
     [Security, Logging, Json_parser, Error_handler]"
  by (simp add: strict_parser_fails error_handler_def error_object_def js_or_def getenv_def
        Let_def res_status_def is_integer_def send_json_def fresh_def bodiless_def
        preflight_request_def get_header_def)




section \<open>The health endpoint\<close>

text \<open>
  C6. As stated, the claim gives every \<^verbatim>\<open>GET /api/health\<close> request status 200 and the
  JSON body. What holds: an unconditional \<^verbatim>\<open>GET /api/health\<close> request (one with neither
  \<^verbatim>\<open>If-None-Match\<close> nor \<^verbatim>\<open>If-Modified-Since\<close>) that comes to the routes is answered by the
  health endpoint, whatever the route groups are, with status 200 and a JSON body of
  seven properties: \<^verbatim>\<open>status\<close>, \<^verbatim>\<open>message\<close>, \<^verbatim>\<open>environment\<close> (the configured mode,
  \<^verbatim>\<open>development\<close> when none is configured), \<^verbatim>\<open>version\<close>, \<^verbatim>\<open>timestamp\<close> (the clock reading
  in ISO-8601), \<^verbatim>\<open>corsOrigin\<close> (the request's \<^verbatim>\<open>Origin\<close> header, a placeholder when it has
  none) and \<^verbatim>\<open>allowedOrigins\<close>. For such a request that the layers installed before the
  CORS middleware pass on, this is the response of the whole application. The list
  \<^verbatim>\<open>allowedOrigins\<close> is resolved from the environment: it is never empty, none of its
  entries holds a comma, and joined with commas it is \<^verbatim>\<open>ALLOWED_ORIGINS\<close> in production
  and \<^verbatim>\<open>DEV_ALLOWED_ORIGINS\<close> in any other mode, or the default of that mode when the
  variable is missing or empty. The two defaults differ.
\<close>

theorem health_endpoint_response:
  assumes "req_method r = ''GET''" and "req_path r = ''/api/health''"
    and "\<not> conditional r"
  shows "run fw (route_layers c) e now r h =
           \<lparr>resp = send_json fw r (health_handler e now r (resp h)),
            visited = visited h @ [Health], logs = logs h\<rparr> \<and>
         status (send_json fw r (health_handler e now r res)) = 200 \<and>
         body (send_json fw r (health_handler e now r res)) = Json (JObj
           [(''status'', JStr ''ok''),
            (''message'', JStr ''Sleep Olympics API is running''),
            (''environment'', JStr (or_default (getenv e ''NODE_ENV'') ''development'')),
            (''version'', JStr (or_default (getenv e ''npm_package_version'') ''1.0.0'')),
            (''timestamp'', JStr now),
            (''corsOrigin'', JStr (or_default (header r ''origin'') ''No origin header'')),
            (''allowedOrigins'', JArr (map JStr (allowed_origins e)))]) \<and>
         (reaches_cors fw c e now req = Some (r, h) \<longrightarrow>
            resp (handle fw c e now req) =
              send_json fw r (health_handler e now r (cors_response e r (resp h))) \<and>
            visited (handle fw c e now req) =
              [Security, Logging, Json_parser, Urlencoded_parser, Reflective_cors, Health]) \<and>
         allowed_origins e \<noteq> [] \<and>
         (\<forall>origin \<in> set (allowed_origins e). CHR '','' \<notin> set origin) \<and>
         join_with CHR '','' (allowed_origins e) =
           (if getenv e ''NODE_ENV'' = Some ''production''
            then or_default (getenv e ''ALLOWED_ORIGINS'')
                   ''https://pilves.github.io,https://api.chaidla.ee''
            else or_default (getenv e ''DEV_ALLOWED_ORIGINS'')
                   ''http://localhost:5173,http://localhost:5000'') \<and>
         (\<forall>e1 e2. getenv e1 ''NODE_ENV'' = Some ''production'' \<and>
                  \<not> str_truthy (getenv e1 ''ALLOWED_ORIGINS'') \<and>
                  getenv e2 ''NODE_ENV'' \<noteq> Some ''production'' \<and>
                  \<not> str_truthy (getenv e2 ''DEV_ALLOWED_ORIGINS'') \<longrightarrow>
            allowed_origins e1 = [''https://pilves.github.io'', ''https://api.chaidla.ee''] \<and>
            allowed_origins e2 = [''http://localhost:5173'', ''http://localhost:5000''] \<and>
            allowed_origins e1 \<noteq> allowed_origins e2)"
proof -
  have routes: "run fw (route_layers c) e now r h =
      \<lparr>resp = send_json fw r (health_handler e now r (resp h)),
       visited = visited h @ [Health], logs = logs h\<rparr>" for h
    using assms(1,2)
    by (simp add: route_layers_def get_route_def route_group_def is_get_def path_is_def
          path_under_def lower_def)
  note sent = send_health [OF assms(1,3)]
  have 1: "status (send_json fw r (health_handler e now r res)) = 200"
    unfolding sent by (simp add: health_handler_def)
  have 2: "body (send_json fw r (health_handler e now r res)) = Json (JObj
           [(''status'', JStr ''ok''),
            (''message'', JStr ''Sleep Olympics API is running''),
            (''environment'', JStr (or_default (getenv e ''NODE_ENV'') ''development'')),
            (''version'', JStr (or_default (getenv e ''npm_package_version'') ''1.0.0'')),
            (''timestamp'', JStr now),
            (''corsOrigin'', JStr (or_default (header r ''origin'') ''No origin header'')),
            (''allowedOrigins'', JArr (map JStr (allowed_origins e)))])"
    unfolding sent by (simp add: health_handler_def)
  have 3: "reaches_cors fw c e now req = Some (r, h) \<longrightarrow>
            resp (handle fw c e now req) =
              send_json fw r (health_handler e now r (cors_response e r (resp h))) \<and>
            visited (handle fw c e now req) =
              [Security, Logging, Json_parser, Urlencoded_parser, Reflective_cors, Health]"
  proof
    assume reach: "reaches_cors fw c e now req = Some (r, h)"
    note st = reaches_cors_state [OF reach]
    have "handle fw c e now req = run fw (cors_layer # route_layers c) e now r h"
      by (rule handle_from_cors [OF reach])
    also have "\<dots> = run fw (route_layers c) e now r
        \<lparr>resp = cors_response e r (resp h), visited = visited h @ [Reflective_cors],
         logs = logs h\<rparr>"
      using assms(1) by (intro after_cors) simp
    finally have eq: "handle fw c e now req =
        \<lparr>resp = send_json fw r (health_handler e now r (cors_response e r (resp h))),
         visited = visited h @ [Reflective_cors, Health], logs = logs h\<rparr>"
      by (simp add: routes)
    show "resp (handle fw c e now req) =
              send_json fw r (health_handler e now r (cors_response e r (resp h))) \<and>
            visited (handle fw c e now req) =
              [Security, Logging, Json_parser, Urlencoded_parser, Reflective_cors, Health]"
      using st by (simp add: eq)
  qed
  have 4: "allowed_origins e \<noteq> []"
    by (simp add: allowed_origins_def)
  have 5: "\<forall>origin \<in> set (allowed_origins e). CHR '','' \<notin> set origin"
    using split_on_free [of _ "CHR '',''"] by (auto simp: allowed_origins_def)
  have 6: "join_with CHR '','' (allowed_origins e) =
           (if getenv e ''NODE_ENV'' = Some ''production''
            then or_default (getenv e ''ALLOWED_ORIGINS'')
                   ''https://pilves.github.io,https://api.chaidla.ee''
            else or_default (getenv e ''DEV_ALLOWED_ORIGINS'')
                   ''http://localhost:5173,http://localhost:5000'')"
    by (simp add: allowed_origins_def join_split)
  have 7: "\<forall>e1 e2. getenv e1 ''NODE_ENV'' = Some ''production'' \<and>
                  \<not> str_truthy (getenv e1 ''ALLOWED_ORIGINS'') \<and>
                  getenv e2 ''NODE_ENV'' \<noteq> Some ''production'' \<and>
                  \<not> str_truthy (getenv e2 ''DEV_ALLOWED_ORIGINS'') \<longrightarrow>
            allowed_origins e1 = [''https://pilves.github.io'', ''https://api.chaidla.ee''] \<and>
            allowed_origins e2 = [''http://localhost:5173'', ''http://localhost:5000''] \<and>
            allowed_origins e1 \<noteq> allowed_origins e2"
    by (auto simp: allowed_origins_def or_default_def str_truthy_def split: option.splits)
  from routes [of h] 1 2 3 4 5 6 7 show ?thesis
    by (intro conjI)
qed

theorem health_endpoint_response_witness:
  "req_method (health_request\<lparr>req_id := JStr ''req-1''\<rparr>) = ''GET'' \<and>
   req_path (health_request\<lparr>req_id := JStr ''req-1''\<rparr>) = ''/api/health'' \<and>
   \<not> conditional (health_request\<lparr>req_id := JStr ''req-1''\<rparr>) \<and>
   status (resp (handle plain_framework example_collaborators
             [(''NODE_ENV'', ''production''), (''ALLOWED_ORIGINS'', ''https://a.example,https://b.example'')]
             ''2026-11-02T09:46:00.000Z'' health_request)) = 200 \<and>
   body (resp (handle plain_framework example_collaborators
           [(''NODE_ENV'', ''production''), (''ALLOWED_ORIGINS'', ''https://a.example,https://b.example'')]
           ''2026-11-02T09:46:00.000Z'' health_request)) = Json (JObj
     [(''status'', JStr ''ok''),
      (''message'', JStr ''Sleep Olympics API is running''),
      (''environment'', JStr ''production''),
      (''version'', JStr ''1.0.0''),
      (''timestamp'', JStr ''2026-11-02T09:46:00.000Z''),
      (''corsOrigin'', JStr ''http://localhost:5173''),
      (''allowedOrigins'', JArr [JStr ''https://a.example'', JStr ''https://b.example''])]) \<and>
   visited (handle plain_framework example_collaborators
              [(''NODE_ENV'', ''production''), (''ALLOWED_ORIGINS'', ''https://a.example,https://b.example'')]
              ''2026-11-02T09:46:00.000Z'' health_request) =
     [Security, Logging, Json_parser, Urlencoded_parser, Reflective_cors, Health]"
proof -
  let ?e = "[(''NODE_ENV'', ''production''),
             (''ALLOWED_ORIGINS'', ''https://a.example,https://b.example'')]"
  have m: "req_method (health_request\<lparr>req_id := JStr ''req-1''\<rparr>) = ''GET''"
    by (simp add: health_request_def)
  have p: "req_path (health_request\<lparr>req_id := JStr ''req-1''\<rparr>) = ''/api/health''"
    by (simp add: health_request_def)
  have u: "\<not> conditional (health_request\<lparr>req_id := JStr ''req-1''\<rparr>)"
    by (simp add: conditional_def header_def health_request_def str_truthy_def)
  note t = health_endpoint_response [OF m p u, where e = ?e
      and now = "''2026-11-02T09:46:00.000Z''" and c = example_collaborators
      and req = health_request and fw = plain_framework
      and res = "cors_response ?e (health_request\<lparr>req_id := JStr ''req-1''\<rparr>)
           \<lparr>status = 200, res_headers = [(''X-Content-Type-Options'', ''nosniff'')],
            body = No_body\<rparr>"]
  note q = t [THEN conjunct2, THEN conjunct2, THEN conjunct2, THEN conjunct1, THEN mp,
      OF example_reaches_cors]
  have r: "resp (handle plain_framework example_collaborators ?e
           ''2026-11-02T09:46:00.000Z'' health_request) =
       send_json plain_framework (health_request\<lparr>req_id := JStr ''req-1''\<rparr>)
        (health_handler ?e ''2026-11-02T09:46:00.000Z''
         (health_request\<lparr>req_id := JStr ''req-1''\<rparr>)
         (cors_response ?e (health_request\<lparr>req_id := JStr ''req-1''\<rparr>)
           \<lparr>status = 200, res_headers = [(''X-Content-Type-Options'', ''nosniff'')],
            body = No_body\<rparr>))"
    using q [THEN conjunct1] by simp
  have s: "status (resp (handle plain_framework example_collaborators ?e
             ''2026-11-02T09:46:00.000Z'' health_request)) = 200"
    unfolding r by (rule t [THEN conjunct2, THEN conjunct1])
  have a: "allowed_origins ?e = [''https://a.example'', ''https://b.example'']"
    by (simp add: allowed_origins_def getenv_def or_default_def)
  have b: "body (resp (handle plain_framework example_collaborators ?e
           ''2026-11-02T09:46:00.000Z'' health_request)) = Json (JObj
     [(''status'', JStr ''ok''),
      (''message'', JStr ''Sleep Olympics API is running''),
      (''environment'', JStr ''production''),
      (''version'', JStr ''1.0.0''),
      (''timestamp'', JStr ''2026-11-02T09:46:00.000Z''),
      (''corsOrigin'', JStr ''http://localhost:5173''),
      (''allowedOrigins'', JArr [JStr ''https://a.example'', JStr ''https://b.example''])])"
    unfolding r t [THEN conjunct2, THEN conjunct2, THEN conjunct1] a
    by (simp add: header_def health_request_def or_default_def getenv_def)
  from m p u s b q [THEN conjunct2] show ?thesis by (intro conjI)
qed

text \<open>
  A \<^verbatim>\<open>GET /api/health\<close> whose body the JSON parser refuses is answered by the terminal
  error handler with status 400 and the error body. A \<^verbatim>\<open>GET /api/health\<close> with
  \<^verbatim>\<open>If-None-Match: *\<close> reaches the health endpoint and is answered with status 304 and no
  body.
\<close>

theorem health_not_always_200:
  "status (resp (handle plain_framework strict_parser_collaborators []
             ''2026-11-02T09:46:00.000Z'' health_request)) = 400 \<and>
   field ''status'' (body (resp (handle plain_framework strict_parser_collaborators []
             ''2026-11-02T09:46:00.000Z'' health_request))) = None \<and>
   status (resp (handle plain_framework example_collaborators []
             ''2026-11-02T09:46:00.000Z'' conditional_health_request)) = 304 \<and>
   body (resp (handle plain_framework example_collaborators []
             ''2026-11-02T09:46:00.000Z'' conditional_health_request)) = No_body"
proof -
  have 1: "status (resp (handle plain_framework strict_parser_collaborators []
             ''2026-11-02T09:46:00.000Z'' health_request)) = 400"
    by (simp add: strict_parser_fails error_handler_def error_object_def js_or_def getenv_def
        Let_def res_status_def is_integer_def send_json_def fresh_def bodiless_def
        health_request_def)
  have 2: "field ''status'' (body (resp (handle plain_framework strict_parser_collaborators []
             ''2026-11-02T09:46:00.000Z'' health_request))) = None"
    by (simp add: strict_parser_fails error_handler_def error_object_def js_or_def getenv_def
        Let_def res_status_def is_integer_def send_json_def fresh_def bodiless_def
        health_request_def)
  have v: "resp (handle plain_framework example_collaborators []
             ''2026-11-02T09:46:00.000Z'' conditional_health_request) =
      send_json plain_framework (conditional_health_request\<lparr>req_id := JStr ''req-1''\<rparr>)
        (health_handler [] ''2026-11-02T09:46:00.000Z''
           (conditional_health_request\<lparr>req_id := JStr ''req-1''\<rparr>)
           (cors_response [] (conditional_health_request\<lparr>req_id := JStr ''req-1''\<rparr>)
              \<lparr>status = 200, res_headers = [(''X-Content-Type-Options'', ''nosniff'')],
               body = No_body\<rparr>))"
    unfolding handle_from_cors [OF example_reaches_cors]
    by (simp add: cors_layer_def cors_response_def cors_middleware_def Let_def
          route_layers_def get_route_def route_group_def is_get_def path_is_def
          path_under_def lower_def conditional_health_request_def)
  have 3: "status (resp (handle plain_framework example_collaborators []
             ''2026-11-02T09:46:00.000Z'' conditional_health_request)) = 304"
    unfolding v
    by (simp add: send_json_def health_handler_def fresh_def conditional_def header_def
          conditional_health_request_def str_truthy_def Let_def bodiless_def)
  have 4: "body (resp (handle plain_framework example_collaborators []
             ''2026-11-02T09:46:00.000Z'' conditional_health_request)) = No_body"
    unfolding v
    by (simp add: send_json_def health_handler_def fresh_def conditional_def header_def
          conditional_health_request_def str_truthy_def Let_def bodiless_def)
  from 1 2 3 4 show ?thesis by (intro conjI)
qed




end
